theory Spec2Isabelle
  imports Complex_Main
begin

section \<open>JavaScript values held by the component\<close>

text \<open>
  The values that flow through \<^verbatim>\<open>App.jsx\<close> are parsed JSON (\<^verbatim>\<open>response.data\<close>,
  \<^verbatim>\<open>err.response.data\<close>), message strings and \<^verbatim>\<open>null\<close>. A number is the finite double
  the parser produced, written as the rational it denotes. An object lists each key once.
\<close>

datatype json =
    JNull
  | JBool bool
  | JNum rat
  | JStr string
  | JArr "json list"
  | JObj "(string \<times> json) list"

text \<open>JavaScript truthiness, as used by \<^verbatim>\<open>!analysis\<close>, \<^verbatim>\<open>error &&\<close> and \<^verbatim>\<open>||\<close>.\<close>

fun truthy :: "json \<Rightarrow> bool" where
  "truthy JNull = False"
| "truthy (JBool b) = b"
| "truthy (JNum r) = (r \<noteq> 0)"
| "truthy (JStr s) = (s \<noteq> [])"
| "truthy (JArr xs) = True"
| "truthy (JObj kvs) = True"

text \<open>
  Property access \<^verbatim>\<open>v?.k\<close> for a key that is no built-in property of strings or arrays
  (here only \<^verbatim>\<open>detail\<close>): \<open>None\<close> is \<^verbatim>\<open>undefined\<close>.
\<close>

fun get_prop :: "json \<Rightarrow> string \<Rightarrow> json option" where
  "get_prop (JObj kvs) k = map_of kvs k"
| "get_prop v k = None"

text \<open>\<^verbatim>\<open>a || b\<close> where \<^verbatim>\<open>a\<close> may be \<^verbatim>\<open>undefined\<close>.\<close>

definition or_else :: "json option \<Rightarrow> json \<Rightarrow> json" where
  "or_else a b = (case a of None \<Rightarrow> b | Some v \<Rightarrow> if truthy v then v else b)"

section \<open>Files, component state, configuration\<close>

text \<open>A browser \<^verbatim>\<open>File\<close>: \<^verbatim>\<open>name\<close>, \<^verbatim>\<open>size\<close>, \<^verbatim>\<open>type\<close> and the bytes.\<close>

record File =
  name :: string
  size_f :: nat
  type_f :: string
  content :: string

text \<open>The four \<^verbatim>\<open>useState\<close> cells of \<^verbatim>\<open>App\<close>; \<^verbatim>\<open>null\<close> is \<open>None\<close> for the file and \<open>JNull\<close> otherwise.\<close>

record app_state =
  file_s :: "File option"
  analysis :: json
  loading :: bool
  error :: json

definition init_state :: app_state where
  "init_state = \<lparr>file_s = None, analysis = JNull, loading = False, error = JNull\<rparr>"

text \<open>\<^verbatim>\<open>import.meta.env\<close>: each variable is a string or absent.\<close>

record env =
  VITE_API_BASE_URL :: "string option"
  VITE_API_TIMEOUT :: "string option"

definition API_BASE_URL :: "env \<Rightarrow> string" where
  "API_BASE_URL e =
     (case VITE_API_BASE_URL e of
        None \<Rightarrow> ''http://localhost:8000''
      | Some u \<Rightarrow> if u = [] then ''http://localhost:8000'' else u)"

subsection \<open>\<^verbatim>\<open>parseInt\<close> with no radix\<close>

text \<open>
  \<^verbatim>\<open>parseInt(s)\<close>: skip leading white space, read a sign, switch to radix 16 after a
  \<^verbatim>\<open>0x\<close>/\<^verbatim>\<open>0X\<close> prefix, read the longest run of digits; \<open>None\<close> is \<^verbatim>\<open>NaN\<close>. Only the ASCII
  white space characters are covered, and the value is the exact integer (a double
  rounds it above \<open>2^53\<close>, which never makes a non-zero value zero).
\<close>

definition is_space :: "char \<Rightarrow> bool" where
  "is_space c = (c \<in> set [CHR '' '', CHR 0x09, CHR 0x0A, CHR 0x0B, CHR 0x0C, CHR 0x0D])"

definition digit_val :: "char \<Rightarrow> nat" where
  "digit_val c =
     (let n = of_char c :: nat in
      if 48 \<le> n \<and> n \<le> 57 then n - 48
      else if 97 \<le> n \<and> n \<le> 122 then n - 87
      else if 65 \<le> n \<and> n \<le> 90 then n - 55
      else 36)"

fun digits_value :: "nat \<Rightarrow> nat \<Rightarrow> string \<Rightarrow> nat" where
  "digits_value R acc [] = acc"
| "digits_value R acc (c # cs) = digits_value R (acc * R + digit_val c) cs"

definition parse_digits :: "nat \<Rightarrow> int \<Rightarrow> string \<Rightarrow> int option" where
  "parse_digits R sign s =
     (let Z = takeWhile (\<lambda>c. digit_val c < R) s in
      if Z = [] then None else Some (sign * int (digits_value R 0 Z)))"

definition strip_prefix_parse :: "int \<Rightarrow> string \<Rightarrow> int option" where
  "strip_prefix_parse sign s =
     (if take 2 s = ''0x'' \<or> take 2 s = ''0X'' then parse_digits 16 sign (drop 2 s)
      else parse_digits 10 sign s)"

definition parseInt :: "string \<Rightarrow> int option" where
  "parseInt inputString =
     (let S = dropWhile is_space inputString in
      case S of
        [] \<Rightarrow> None
      | c # cs \<Rightarrow>
          if c = CHR ''-'' then strip_prefix_parse (- 1) cs
          else if c = CHR ''+'' then strip_prefix_parse 1 cs
          else strip_prefix_parse 1 S)"

text \<open>\<^verbatim>\<open>ToString\<close> of an environment variable: an absent one is \<^verbatim>\<open>undefined\<close>.\<close>

definition to_string :: "string option \<Rightarrow> string" where
  "to_string v = (case v of None \<Rightarrow> ''undefined'' | Some s \<Rightarrow> s)"

text \<open>\<^verbatim>\<open>parseInt(import.meta.env.VITE_API_TIMEOUT) || 30000\<close>: \<^verbatim>\<open>NaN\<close> and \<^verbatim>\<open>0\<close> are falsy.\<close>

definition api_timeout :: "env \<Rightarrow> int" where
  "api_timeout e =
     (case parseInt (to_string (VITE_API_TIMEOUT e)) of
        None \<Rightarrow> 30000
      | Some n \<Rightarrow> if n = 0 then 30000 else n)"

section \<open>The HTTP exchange\<close>

text \<open>What \<^verbatim>\<open>axios.post(url, formData, options)\<close> is called with.\<close>

record request =
  method_r :: string
  url :: string
  form :: "(string \<times> File) list"
  headers :: "(string \<times> string) list"
  timeout :: int

record response =
  status :: nat
  data :: json

text \<open>
  The error \<^verbatim>\<open>axios\<close> rejects with: a timeout and a transport failure carry no
  \<^verbatim>\<open>response\<close>; a status outside 2xx carries the server's response.
\<close>

datatype axios_error = Timeout | NetworkFail | BadStatus response

fun err_response :: "axios_error \<Rightarrow> response option" where
  "err_response Timeout = None"
| "err_response NetworkFail = None"
| "err_response (BadStatus r) = Some r"

datatype outcome = Resolved response | Rejected axios_error

section \<open>The handlers of \<^verbatim>\<open>App\<close>\<close>

text \<open>\<^verbatim>\<open>onDrop(acceptedFiles)\<close>: only \<^verbatim>\<open>acceptedFiles[0]\<close> is looked at.\<close>

definition onDrop :: "File list \<Rightarrow> app_state \<Rightarrow> app_state" where
  "onDrop acceptedFiles s =
     (case acceptedFiles of
        [] \<Rightarrow> s
      | selectedFile # rest \<Rightarrow> s\<lparr>file_s := Some selectedFile, error := JNull, analysis := JNull\<rparr>)"

text \<open>
  The drop zone is configured with an \<^verbatim>\<open>accept\<close> table and \<^verbatim>\<open>multiple: false\<close>; the
  matching of a file against the table is the drop zone library's and is a parameter
  \<open>accepted\<close> here. A dropped file that does not match is not passed to \<^verbatim>\<open>onDrop\<close>.
\<close>

definition accept :: "(string \<times> string list) list" where
  "accept =
     [(''text/csv'', [''.csv'']),
      (''application/vnd.openxmlformats-officedocument.spreadsheetml.sheet'', [''.xlsx''])]"

text \<open>
  Matching on the MIME types of the table, for the examples; the library accepts a file
  on a listed extension as well.
\<close>

definition accepts_type :: "File \<Rightarrow> bool" where
  "accepts_type f = (type_f f \<in> set (map fst accept))"

definition acceptedFiles_of :: "(File \<Rightarrow> bool) \<Rightarrow> File \<Rightarrow> File list" where
  "acceptedFiles_of accepted f = (if accepted f then [f] else [])"

definition select :: "(File \<Rightarrow> bool) \<Rightarrow> File \<Rightarrow> app_state \<Rightarrow> app_state" where
  "select accepted f s = onDrop (acceptedFiles_of accepted f) s"




text \<open>
  \<^verbatim>\<open>analyzeDataset\<close> up to its \<^verbatim>\<open>await\<close>: the guard on \<^verbatim>\<open>file\<close>, the two state updates and
  the request handed to \<^verbatim>\<open>axios.post\<close> (\<open>None\<close>: no request was made).
\<close>

definition mk_request :: "env \<Rightarrow> File \<Rightarrow> request" where
  "mk_request e f =
     \<lparr>method_r = ''POST'',
      url = API_BASE_URL e @ ''/analyze_dataset/'',
      form = [(''file'', f)],
      headers = [(''Content-Type'', ''multipart/form-data'')],
      timeout = api_timeout e\<rparr>"

definition analyzeDataset_begin :: "env \<Rightarrow> app_state \<Rightarrow> app_state \<times> request option" where
  "analyzeDataset_begin e s =
     (case file_s s of
        None \<Rightarrow> (s\<lparr>error := JStr ''Por favor selecciona un archivo''\<rparr>, None)
      | Some f \<Rightarrow> (s\<lparr>loading := True, error := JNull\<rparr>, Some (mk_request e f)))"

text \<open>
  The rest of \<^verbatim>\<open>analyzeDataset\<close>, run when the awaited promise settles: the \<^verbatim>\<open>try\<close> body
  on a response, the \<^verbatim>\<open>catch\<close> on a rejection, then the \<^verbatim>\<open>finally\<close>.
\<close>

definition catch_message :: "axios_error \<Rightarrow> json" where
  "catch_message err =
     or_else (case err_response err of None \<Rightarrow> None | Some r \<Rightarrow> get_prop (data r) ''detail'')
             (JStr ''Error al analizar el dataset'')"

definition analyzeDataset_end :: "outcome \<Rightarrow> app_state \<Rightarrow> app_state" where
  "analyzeDataset_end out s =
     (case out of
        Resolved r \<Rightarrow> s\<lparr>analysis := data r\<rparr>
      | Rejected err \<Rightarrow> s\<lparr>error := catch_message err\<rparr>)\<lparr>loading := False\<rparr>"

definition resetAnalysis :: "app_state \<Rightarrow> app_state" where
  "resetAnalysis s = s\<lparr>file_s := None, analysis := JNull, error := JNull\<rparr>"

text \<open>The inline handler of the clear button, \<^verbatim>\<open>() => setFile(null)\<close>.\<close>

definition clearFile :: "app_state \<Rightarrow> app_state" where
  "clearFile s = s\<lparr>file_s := None\<rparr>"

section \<open>What is rendered, and the events of a session\<close>

text \<open>
  The upload section (drop zone, buttons, error box) is rendered when \<^verbatim>\<open>!analysis\<close>, the
  results section with its reset button otherwise. The analyze and clear buttons are
  rendered when \<^verbatim>\<open>file\<close> is set; the analyze button carries \<^verbatim>\<open>disabled={loading}\<close>.
\<close>

definition upload_view :: "app_state \<Rightarrow> bool" where
  "upload_view s = (\<not> truthy (analysis s))"

definition buttons_shown :: "app_state \<Rightarrow> bool" where
  "buttons_shown s = (upload_view s \<and> file_s s \<noteq> None)"

definition analyze_enabled :: "app_state \<Rightarrow> bool" where
  "analyze_enabled s = (buttons_shown s \<and> \<not> loading s)"

text \<open>
  A session: the component state, the requests whose promise has not settled yet, and
  every request made so far.
\<close>

record session =
  ui :: app_state
  inflight :: "request list"
  sent :: "request list"

definition init_session :: session where
  "init_session = \<lparr>ui = init_state, inflight = [], sent = []\<rparr>"

text \<open>
  The events: the drop zone calling \<^verbatim>\<open>onDrop\<close>, a click on each of the three buttons, and
  the oldest pending promise settling. A control that is not rendered, or is disabled,
  does not call its handler; with nothing pending nothing settles.
\<close>

datatype event = Drop "File list" | ClickAnalyze | ClickClear | ClickReset | Settle outcome

fun fire :: "env \<Rightarrow> event \<Rightarrow> session \<Rightarrow> session" where
  "fire e (Drop acceptedFiles) y =
     (if upload_view (ui y) then y\<lparr>ui := onDrop acceptedFiles (ui y)\<rparr> else y)"
| "fire e ClickAnalyze y =
     (if analyze_enabled (ui y) then
        (case analyzeDataset_begin e (ui y) of
           (s', None) \<Rightarrow> y\<lparr>ui := s'\<rparr>
         | (s', Some r) \<Rightarrow> y\<lparr>ui := s', inflight := inflight y @ [r], sent := sent y @ [r]\<rparr>)
      else y)"
| "fire e ClickClear y =
     (if buttons_shown (ui y) then y\<lparr>ui := clearFile (ui y)\<rparr> else y)"
| "fire e ClickReset y =
     (if upload_view (ui y) then y else y\<lparr>ui := resetAnalysis (ui y)\<rparr>)"
| "fire e (Settle out) y =
     (case inflight y of
        [] \<Rightarrow> y
      | r # rs \<Rightarrow> y\<lparr>ui := analyzeDataset_end out (ui y), inflight := rs\<rparr>)"

fun run :: "env \<Rightarrow> event list \<Rightarrow> session \<Rightarrow> session" where
  "run e [] y = y"
| "run e (ev # evs) y = run e evs (fire e ev y)"

text \<open>Files and configurations used in the examples.\<close>

definition sales_csv :: File where
  "sales_csv = \<lparr>name = ''sales.csv'', size_f = 12288, type_f = ''text/csv'', content = ''a,b''\<rparr>"

definition report_pdf :: File where
  "report_pdf =
     \<lparr>name = ''report.pdf'', size_f = 2048, type_f = ''application/pdf'', content = ''%PDF''\<rparr>"

definition no_env :: env where
  "no_env = \<lparr>VITE_API_BASE_URL = None, VITE_API_TIMEOUT = None\<rparr>"

section \<open>Rendering\<close>

text \<open>
  What React accepts as a child in \<^verbatim>\<open>{error}\<close> and in the cards: \<^verbatim>\<open>null\<close>, booleans, numbers,
  strings and arrays of such. An object is refused with an exception.
\<close>

fun valid_child :: "json \<Rightarrow> bool" and valid_children :: "json list \<Rightarrow> bool" where
  "valid_child JNull = True"
| "valid_child (JBool b) = True"
| "valid_child (JNum r) = True"
| "valid_child (JStr s) = True"
| "valid_child (JArr xs) = valid_children xs"
| "valid_child (JObj kvs) = False"
| "valid_children [] = True"
| "valid_children (x # xs) = (valid_child x \<and> valid_children xs)"

text \<open>A child that may be \<^verbatim>\<open>undefined\<close>, which renders as nothing.\<close>

definition valid_opt :: "json option \<Rightarrow> bool" where
  "valid_opt v = (case v of None \<Rightarrow> True | Some x \<Rightarrow> valid_child x)"

text \<open>
  What one render of \<^verbatim>\<open>App\<close> puts on the page, as far as the controls go: the drop zone,
  the analyze button with its \<^verbatim>\<open>disabled\<close> flag, the clear button, the error box with its
  message, the reset button, and the number of cards in each results list.
\<close>

record view =
  dropzone_v :: bool
  analyze_v :: "bool option"
  clear_v :: bool
  error_v :: "json option"
  reset_v :: bool
  observation_cards :: nat
  suggestion_cards :: nat

text \<open>
  The upload section (\<^verbatim>\<open>!analysis\<close>). \<^verbatim>\<open>{error && ...}\<close> renders the message when \<^verbatim>\<open>error\<close> is
  truthy and the falsy value itself otherwise; \<open>None\<close>: the render throws.
\<close>

definition render_upload :: "app_state \<Rightarrow> view option" where
  "render_upload s =
     (if valid_child (error s) then
        Some \<lparr>dropzone_v = True,
              analyze_v = (case file_s s of None \<Rightarrow> None | Some f \<Rightarrow> Some (loading s)),
              clear_v = (file_s s \<noteq> None),
              error_v = (if truthy (error s) then Some (error s) else None),
              reset_v = False,
              observation_cards = 0,
              suggestion_cards = 0\<rparr>
      else None)"

text \<open>
  \<^verbatim>\<open>analysis.metricas.porcentaje_valores_faltantes\<close> and its two siblings: reading a property
  of \<^verbatim>\<open>undefined\<close> or \<^verbatim>\<open>null\<close> throws, and the three values are rendered as children.
\<close>

definition render_metrics :: "json \<Rightarrow> bool" where
  "render_metrics a =
     (case get_prop a ''metricas'' of
        None \<Rightarrow> False
      | Some JNull \<Rightarrow> False
      | Some m \<Rightarrow>
          valid_opt (get_prop m ''porcentaje_valores_faltantes'')
          \<and> valid_opt (get_prop m ''porcentaje_filas_duplicadas'')
          \<and> valid_opt (get_prop m ''salud_del_dataset''))"

text \<open>One card: \<^verbatim>\<open>obs.titulo\<close>, \<^verbatim>\<open>obs.mensaje\<close>, \<^verbatim>\<open>obs.tipo_de_reporte\<close> of a list item.\<close>

definition render_card :: "json \<Rightarrow> bool" where
  "render_card item =
     (case item of
        JNull \<Rightarrow> False
      | _ \<Rightarrow>
          valid_opt (get_prop item ''titulo'')
          \<and> valid_opt (get_prop item ''mensaje'')
          \<and> valid_opt (get_prop item ''tipo_de_reporte''))"

text \<open>
  \<^verbatim>\<open>xs.length > 0 ? xs.map(card) : no-data paragraph\<close> for \<^verbatim>\<open>xs\<close> one of
  \<^verbatim>\<open>analysis.observaciones\<close>, \<^verbatim>\<open>analysis.sugerencias\<close>; the result is the number of cards,
  \<open>None\<close> when the render throws. Only an array has \<^verbatim>\<open>map\<close>. For an object that has a
  \<^verbatim>\<open>length\<close> key the comparison of its value with \<open>0\<close> is JavaScript's and is the parameter
  \<open>gtz\<close>: whether the comparison gives anything but \<^verbatim>\<open>false\<close>.
\<close>

definition render_cards :: "(json \<Rightarrow> bool) \<Rightarrow> json option \<Rightarrow> nat option" where
  "render_cards gtz xs =
     (case xs of
        None \<Rightarrow> None
      | Some JNull \<Rightarrow> None
      | Some (JBool b) \<Rightarrow> Some 0
      | Some (JNum r) \<Rightarrow> Some 0
      | Some (JStr s) \<Rightarrow> if s = [] then Some 0 else None
      | Some (JArr items) \<Rightarrow> if list_all render_card items then Some (length items) else None
      | Some (JObj kvs) \<Rightarrow>
          (case map_of kvs ''length'' of
             None \<Rightarrow> Some 0
           | Some l \<Rightarrow> if gtz l then None else Some 0))"

text \<open>The results section, rendered when \<^verbatim>\<open>analysis\<close> is truthy.\<close>

definition render_results :: "(json \<Rightarrow> bool) \<Rightarrow> json \<Rightarrow> view option" where
  "render_results gtz a =
     (if render_metrics a then
        (case render_cards gtz (get_prop a ''observaciones'') of
           None \<Rightarrow> None
         | Some n \<Rightarrow>
             (case render_cards gtz (get_prop a ''sugerencias'') of
                None \<Rightarrow> None
              | Some k \<Rightarrow>
                  Some \<lparr>dropzone_v = False, analyze_v = None, clear_v = False, error_v = None,
                        reset_v = True, observation_cards = n, suggestion_cards = k\<rparr>))
      else None)"

definition render :: "(json \<Rightarrow> bool) \<Rightarrow> app_state \<Rightarrow> view option" where
  "render gtz s =
     (if truthy (analysis s) then render_results gtz (analysis s) else render_upload s)"

text \<open>
  The comparison with \<open>0\<close> on numbers, booleans and \<^verbatim>\<open>null\<close>, where it needs no conversion
  from a string; it stands for \<open>gtz\<close> in the examples, none of which reaches it.
\<close>

definition num_gtz :: "json \<Rightarrow> bool" where
  "num_gtz l = (case l of JNum r \<Rightarrow> 0 < r | JBool b \<Rightarrow> b | _ \<Rightarrow> False)"

text \<open>
  A component that rendered is interactive when a control that takes input is on the
  page: the drop zone in the upload section, the reset button in the results section.
  After a render that threw nothing is.
\<close>

definition interactive :: "view option \<Rightarrow> bool" where
  "interactive r = (case r of None \<Rightarrow> False | Some v \<Rightarrow> dropzone_v v \<or> reset_v v)"

text \<open>
  The response body the results section is written for (\<^verbatim>\<open>App.jsx\<close>, lines 119 to 168):
  \<^verbatim>\<open>metricas\<close> with three numbers, \<^verbatim>\<open>observaciones\<close> and \<^verbatim>\<open>sugerencias\<close> arrays of objects
  with three strings each.
\<close>

definition is_num :: "json option \<Rightarrow> bool" where
  "is_num v = (case v of Some (JNum r) \<Rightarrow> True | _ \<Rightarrow> False)"

definition is_str :: "json option \<Rightarrow> bool" where
  "is_str v = (case v of Some (JStr s) \<Rightarrow> True | _ \<Rightarrow> False)"

definition is_metrics :: "json option \<Rightarrow> bool" where
  "is_metrics v =
     (case v of
        None \<Rightarrow> False
      | Some m \<Rightarrow>
          is_num (get_prop m ''porcentaje_valores_faltantes'')
          \<and> is_num (get_prop m ''porcentaje_filas_duplicadas'')
          \<and> is_num (get_prop m ''salud_del_dataset''))"

definition is_finding :: "json \<Rightarrow> bool" where
  "is_finding v =
     (is_str (get_prop v ''titulo'')
      \<and> is_str (get_prop v ''mensaje'')
      \<and> is_str (get_prop v ''tipo_de_reporte''))"

definition is_findings :: "json option \<Rightarrow> bool" where
  "is_findings v = (case v of Some (JArr xs) \<Rightarrow> list_all is_finding xs | _ \<Rightarrow> False)"

definition is_analysis_result :: "json \<Rightarrow> bool" where
  "is_analysis_result a =
     (is_metrics (get_prop a ''metricas'')
      \<and> is_findings (get_prop a ''observaciones'')
      \<and> is_findings (get_prop a ''sugerencias''))"

text \<open>
  The settlings after which what was stored is known to render: a rejection whose message
  is a valid child, a response whose body is falsy or has the shape above.
\<close>

definition renderable_outcome :: "outcome \<Rightarrow> bool" where
  "renderable_outcome out =
     (case out of
        Resolved r \<Rightarrow> if truthy (data r) then is_analysis_result (data r) else True
      | Rejected err \<Rightarrow> valid_child (catch_message err))"

text \<open>Responses used in the examples.\<close>

definition validation_422 :: response where
  "validation_422 =
     \<lparr>status = 422,
      data = JObj [(''detail'',
               JArr [JObj [(''loc'', JArr [JStr ''body'', JStr ''file'']),
                           (''msg'', JStr ''field required''),
                           (''type'', JStr ''value_error.missing'')]])]\<rparr>"

definition error_500 :: response where
  "error_500 = \<lparr>status = 500, data = JObj [(''detail'', JStr ''internal error'')]\<rparr>"

definition report_200 :: response where
  "report_200 =
     \<lparr>status = 200,
      data = JObj [(''metricas'',
                      JObj [(''porcentaje_valores_faltantes'', JNum 5),
                            (''porcentaje_filas_duplicadas'', JNum 0),
                            (''salud_del_dataset'', JNum 95)]),
                   (''observaciones'', JArr []),
                   (''sugerencias'',
                      JArr [JObj [(''titulo'', JStr ''Low missing data''),
                                  (''mensaje'', JStr ''...''),
                                  (''tipo_de_reporte'', JStr ''info'')]])]\<rparr>"

section \<open>The invariant of a session\<close>

text \<open>
  At most one request is pending, \<^verbatim>\<open>loading\<close> is set exactly while one is, and no result
  is displayed meanwhile.
\<close>

definition session_inv :: "session \<Rightarrow> bool" where
  "session_inv y =
     (length (inflight y) \<le> 1
      \<and> loading (ui y) = (inflight y \<noteq> [])
      \<and> \<not> (loading (ui y) \<and> truthy (analysis (ui y))))"

lemma session_inv_init: "session_inv init_session"
  by (simp add: session_inv_def init_session_def init_state_def)

lemma session_inv_fire:
  assumes "session_inv y"
  shows "session_inv (fire e ev y)"
proof (cases ev)
  case (Drop fs)
  with assms show ?thesis
    by (cases fs) (auto simp: session_inv_def onDrop_def)
next
  case ClickAnalyze
  with assms show ?thesis
    by (auto simp: session_inv_def analyze_enabled_def buttons_shown_def upload_view_def
        analyzeDataset_begin_def)
next
  case ClickClear
  with assms show ?thesis
    by (auto simp: session_inv_def clearFile_def)
next
  case ClickReset
  with assms show ?thesis
    by (auto simp: session_inv_def resetAnalysis_def upload_view_def)
next
  case (Settle out)
  with assms show ?thesis
    by (cases "inflight y"; cases out) (auto simp: session_inv_def analyzeDataset_end_def)
qed

lemma session_inv_run: "session_inv y \<Longrightarrow> session_inv (run e evs y)"
  by (induction evs arbitrary: y) (simp_all add: session_inv_fire)

lemma session_inv_reachable: "session_inv (run e evs init_session)"
  by (rule session_inv_run [OF session_inv_init])

lemma reachable_idle_inflight:
  "\<not> loading (ui (run e evs init_session)) \<Longrightarrow> inflight (run e evs init_session) = []"
  using session_inv_reachable [of e evs] by (simp add: session_inv_def)

lemma reachable_result_not_loading:
  "truthy (analysis (ui (run e evs init_session))) \<Longrightarrow> \<not> loading (ui (run e evs init_session))"
  using session_inv_reachable [of e evs] by (auto simp: session_inv_def)

text \<open>While a request is pending no error is held: the click that made it cleared it.\<close>

lemma pending_error_fire:
  assumes "session_inv y" and "loading (ui y) \<longrightarrow> error (ui y) = JNull"
  shows "loading (ui (fire e ev y)) \<longrightarrow> error (ui (fire e ev y)) = JNull"
proof (cases ev)
  case (Drop fs)
  with assms(2) show ?thesis
    by (cases fs) (auto simp: onDrop_def)
next
  case ClickAnalyze
  with assms(2) show ?thesis
    by (auto simp: analyze_enabled_def buttons_shown_def analyzeDataset_begin_def)
next
  case ClickClear
  with assms(2) show ?thesis
    by (auto simp: clearFile_def)
next
  case ClickReset
  with assms(2) show ?thesis
    by (auto simp: resetAnalysis_def)
next
  case (Settle out)
  with assms(2) show ?thesis
    by (cases "inflight y") (auto simp: analyzeDataset_end_def)
qed

lemma pending_error_run:
  "session_inv y \<Longrightarrow> (loading (ui y) \<longrightarrow> error (ui y) = JNull) \<Longrightarrow>
     loading (ui (run e evs y)) \<longrightarrow> error (ui (run e evs y)) = JNull"
proof (induction evs arbitrary: y)
  case Nil
  then show ?case by simp
next
  case (Cons ev evs)
  have "session_inv (fire e ev y)"
    using Cons.prems(1) by (rule session_inv_fire)
  moreover have "loading (ui (fire e ev y)) \<longrightarrow> error (ui (fire e ev y)) = JNull"
    using Cons.prems by (rule pending_error_fire)
  ultimately show ?case
    using Cons.IH [of "fire e ev y"] by simp
qed

lemma reachable_pending:
  assumes "inflight (run e evs init_session) \<noteq> []"
  shows "loading (ui (run e evs init_session))
         \<and> error (ui (run e evs init_session)) = JNull
         \<and> \<not> truthy (analysis (ui (run e evs init_session)))
         \<and> (\<exists>r. inflight (run e evs init_session) = [r])"
proof -
  let ?y = "run e evs init_session"
  have inv: "session_inv ?y" by (rule session_inv_reachable)
  with assms have l: "loading (ui ?y)" by (simp add: session_inv_def)
  have "loading (ui ?y) \<longrightarrow> error (ui ?y) = JNull"
    by (rule pending_error_run [OF session_inv_init])
      (simp add: init_session_def init_state_def)
  with l have e: "error (ui ?y) = JNull" by simp
  from inv l have a: "\<not> truthy (analysis (ui ?y))" by (auto simp: session_inv_def)
  from inv assms have "\<exists>r. inflight ?y = [r]"
    by (cases "inflight ?y") (auto simp: session_inv_def)
  with l e a show ?thesis by simp
qed

lemma catch_message_truthy: "truthy (catch_message err)"
  by (cases err) (simp_all add: catch_message_def or_else_def split: option.splits)

lemma is_num_valid: "is_num v \<Longrightarrow> valid_opt v"
  by (simp add: is_num_def valid_opt_def split: option.splits json.splits)

lemma is_str_valid: "is_str v \<Longrightarrow> valid_opt v"
  by (simp add: is_str_def valid_opt_def split: option.splits json.splits)

lemma is_str_defined: "is_str (get_prop v k) \<Longrightarrow> v \<noteq> JNull"
  by (cases v) (simp_all add: is_str_def)

lemma finding_renders:
  assumes "is_finding v"
  shows "render_card v"
proof -
  from assms have s: "is_str (get_prop v ''titulo'')" "is_str (get_prop v ''mensaje'')"
    "is_str (get_prop v ''tipo_de_reporte'')"
    by (simp_all add: is_finding_def)
  from s(1) have "v \<noteq> JNull" by (rule is_str_defined)
  with s show ?thesis
    by (cases v) (simp_all add: render_card_def is_str_valid)
qed

lemma findings_render: "list_all is_finding vs \<Longrightarrow> list_all render_card vs"
  by (induction vs) (simp_all add: finding_renders)

lemma findings_cards:
  assumes "is_findings v"
  shows "\<exists>n. render_cards gtz v = Some n"
proof -
  from assms obtain xs where v: "v = Some (JArr xs)" and xs: "list_all is_finding xs"
    by (auto simp: is_findings_def split: option.splits json.splits)
  from xs have "list_all render_card xs" by (rule findings_render)
  with v show ?thesis by (simp add: render_cards_def)
qed

lemma metrics_render:
  assumes "is_metrics (get_prop a ''metricas'')"
  shows "render_metrics a"
proof -
  from assms obtain m where m: "get_prop a ''metricas'' = Some m"
    and n: "is_num (get_prop m ''porcentaje_valores_faltantes'')"
      "is_num (get_prop m ''porcentaje_filas_duplicadas'')"
      "is_num (get_prop m ''salud_del_dataset'')"
    by (auto simp: is_metrics_def split: option.splits)
  from n(1) have "m \<noteq> JNull" by (cases m) (simp_all add: is_num_def)
  with m n show ?thesis
    by (cases m) (simp_all add: render_metrics_def is_num_valid)
qed

lemma analysis_result_renders:
  assumes "is_analysis_result a"
  shows "truthy a \<and> interactive (render_results gtz a)"
proof -
  from assms have m: "is_metrics (get_prop a ''metricas'')"
    and os: "is_findings (get_prop a ''observaciones'')"
    and ss: "is_findings (get_prop a ''sugerencias'')"
    by (simp_all add: is_analysis_result_def)
  from m have "truthy a" by (cases a) (simp_all add: is_metrics_def)
  moreover have "render_metrics a" using m by (rule metrics_render)
  moreover obtain n where "render_cards gtz (get_prop a ''observaciones'') = Some n"
    using findings_cards [OF os] by blast
  moreover obtain k where "render_cards gtz (get_prop a ''sugerencias'') = Some k"
    using findings_cards [OF ss] by blast
  ultimately show ?thesis
    by (simp add: render_results_def interactive_def)
qed

text \<open>Where a render succeeds, the controls on the page are those the events go by.\<close>

lemma render_controls:
  assumes "render gtz s = Some v"
  shows "dropzone_v v = upload_view s \<and> reset_v v = (\<not> upload_view s)
         \<and> clear_v v = buttons_shown s
         \<and> analyze_v v = (if buttons_shown s then Some (loading s) else None)"
proof (cases "truthy (analysis s)")
  case True
  with assms show ?thesis
    by (auto simp: render_def render_results_def upload_view_def buttons_shown_def
        split: if_splits option.splits)
next
  case False
  with assms show ?thesis
    by (auto simp: render_def render_upload_def upload_view_def buttons_shown_def
        split: if_splits option.splits)
qed

section \<open>Properties\<close>

text \<open>
  C8. When \<^verbatim>\<open>analyzeDataset\<close> runs while no file is held it only reports
  "Por favor selecciona un archivo": no request is made and the file, the analysis and
  the loading flag are as before.
\<close>

theorem analyze_without_file:
  "file_s s = None \<Longrightarrow>
     analyzeDataset_begin e s = (s\<lparr>error := JStr ''Por favor selecciona un archivo''\<rparr>, None)
     \<and> file_s (fst (analyzeDataset_begin e s)) = file_s s
     \<and> analysis (fst (analyzeDataset_begin e s)) = analysis s
     \<and> loading (fst (analyzeDataset_begin e s)) = loading s
     \<and> truthy (error (fst (analyzeDataset_begin e s)))"
  by (simp add: analyzeDataset_begin_def)

theorem analyze_without_file_witness:
  "file_s init_state = None
   \<and> analyzeDataset_begin \<lparr>VITE_API_BASE_URL = None, VITE_API_TIMEOUT = None\<rparr> init_state
       = (init_state\<lparr>error := JStr ''Por favor selecciona un archivo''\<rparr>, None)"
  using analyze_without_file [of init_state "\<lparr>VITE_API_BASE_URL = None, VITE_API_TIMEOUT = None\<rparr>"]
  by (simp add: init_state_def)

text \<open>
  C1. While a submission is pending (\<^verbatim>\<open>loading\<close> set) a click on the analyze button does
  nothing: the button is disabled, so no second request is made and the session is as
  before. In every reachable session at most one request is pending, and \<^verbatim>\<open>loading\<close> is
  set exactly while one is.
\<close>

theorem analyze_while_loading_is_noop:
  "(loading (ui y) \<longrightarrow> fire e ClickAnalyze y = y)
   \<and> length (inflight (run e evs init_session)) \<le> 1
   \<and> loading (ui (run e evs init_session)) = (inflight (run e evs init_session) \<noteq> [])"
  using session_inv_reachable [of e evs]
  by (simp add: session_inv_def analyze_enabled_def)

theorem analyze_while_loading_is_noop_witness:
  "loading (ui (run no_env [Drop [sales_csv], ClickAnalyze] init_session))
   \<and> fire no_env ClickAnalyze (run no_env [Drop [sales_csv], ClickAnalyze] init_session)
       = run no_env [Drop [sales_csv], ClickAnalyze] init_session
   \<and> sent (run no_env [Drop [sales_csv], ClickAnalyze, ClickAnalyze] init_session)
       = [mk_request no_env sales_csv]"
  using analyze_while_loading_is_noop
    [of "run no_env [Drop [sales_csv], ClickAnalyze] init_session" no_env "[]"]
  by (simp add: init_session_def init_state_def upload_view_def onDrop_def analyze_enabled_def
      buttons_shown_def analyzeDataset_begin_def)

text \<open>
  C2, as stated: the error left by a failed submission tells a timeout, a transport
  failure and a server error apart, and a server error carries its status code. It does
  not: a timeout and a transport failure leave the same state, and so do two server
  errors with different status codes and no \<^verbatim>\<open>detail\<close>.
\<close>

theorem failure_kinds_not_distinguished_counterexample:
  "analyzeDataset_end (Rejected Timeout) init_state
     = analyzeDataset_end (Rejected NetworkFail) init_state
   \<and> analyzeDataset_end (Rejected (BadStatus \<lparr>status = 500, data = JNull\<rparr>)) init_state
       = analyzeDataset_end (Rejected (BadStatus \<lparr>status = 404, data = JNull\<rparr>)) init_state
   \<and> analyzeDataset_end (Rejected (BadStatus \<lparr>status = 500, data = JNull\<rparr>)) init_state
       = analyzeDataset_end (Rejected Timeout) init_state"
  by (simp add: analyzeDataset_end_def catch_message_def or_else_def)

text \<open>
  C2, amended. A failed submission leaves one message in \<^verbatim>\<open>error\<close>: the \<^verbatim>\<open>detail\<close> of the
  server's response body when there is a response and its \<^verbatim>\<open>detail\<close> is truthy, and
  "Error al analizar el dataset" otherwise. A timeout and a transport failure both give
  that generic message, the status code does not enter the message, and the message is
  never empty.
\<close>

theorem failure_message:
  "error (analyzeDataset_end (Rejected err) s) = catch_message err
   \<and> catch_message Timeout = JStr ''Error al analizar el dataset''
   \<and> catch_message NetworkFail = JStr ''Error al analizar el dataset''
   \<and> catch_message (BadStatus r) =
       (case get_prop (data r) ''detail'' of
          None \<Rightarrow> JStr ''Error al analizar el dataset''
        | Some d \<Rightarrow> if truthy d then d else JStr ''Error al analizar el dataset'')
   \<and> catch_message (BadStatus (r\<lparr>status := n\<rparr>)) = catch_message (BadStatus r)
   \<and> truthy (catch_message err)"
  by (cases err)
    (simp_all add: analyzeDataset_end_def catch_message_def or_else_def split: option.splits)

theorem failure_message_witness:
  "error (analyzeDataset_end
       (Rejected (BadStatus \<lparr>status = 500, data = JObj [(''detail'', JStr ''internal error'')]\<rparr>))
       init_state) = JStr ''internal error''"
  using failure_message
    [of "BadStatus \<lparr>status = 500, data = JObj [(''detail'', JStr ''internal error'')]\<rparr>" init_state
        "\<lparr>status = 500, data = JObj [(''detail'', JStr ''internal error'')]\<rparr>" 500]
  by simp

text \<open>
  C3, as stated: from FileSelected, Succeeded or Failed the clear button leads to the
  idle state and drops the file, the result and the error. It does not: after a failed
  submission the error message is still there once the file is cleared, and while a
  result is displayed the clear button is not rendered, so the file and the result stay.
\<close>

theorem clear_keeps_error_counterexample:
  "error (ui (fire no_env ClickClear
       (run no_env [Drop [sales_csv], ClickAnalyze, Settle (Rejected Timeout)] init_session)))
     = JStr ''Error al analizar el dataset''
   \<and> file_s (ui (fire no_env ClickClear
       (run no_env [Drop [sales_csv], ClickAnalyze,
                    Settle (Resolved \<lparr>status = 200, data = JObj []\<rparr>)] init_session)))
     = Some sales_csv
   \<and> analysis (ui (fire no_env ClickClear
       (run no_env [Drop [sales_csv], ClickAnalyze,
                    Settle (Resolved \<lparr>status = 200, data = JObj []\<rparr>)] init_session)))
     = JObj []"
  by (simp add: init_session_def init_state_def upload_view_def onDrop_def analyze_enabled_def
      buttons_shown_def analyzeDataset_begin_def analyzeDataset_end_def catch_message_def
      or_else_def clearFile_def)

text \<open>
  C3, amended. Wherever the clear button is rendered (the upload section with a file
  held) a click on it drops the file and gives the upload section with no file; the
  result, the loading flag and the requests are as before. While a result is displayed
  the button is not rendered and a click changes nothing.
\<close>

theorem clear_drops_file:
  "(buttons_shown (ui y) \<longrightarrow>
      file_s (ui (fire e ClickClear y)) = None
      \<and> upload_view (ui (fire e ClickClear y))
      \<and> analysis (ui (fire e ClickClear y)) = analysis (ui y)
      \<and> loading (ui (fire e ClickClear y)) = loading (ui y)
      \<and> sent (fire e ClickClear y) = sent y)
   \<and> (\<not> upload_view (ui y) \<longrightarrow> fire e ClickClear y = y)"
  by (simp add: buttons_shown_def upload_view_def clearFile_def)

theorem clear_drops_file_witness:
  "buttons_shown (ui (run no_env [Drop [sales_csv]] init_session))
   \<and> file_s (ui (fire no_env ClickClear (run no_env [Drop [sales_csv]] init_session))) = None
   \<and> \<not> upload_view (ui (run no_env [Drop [sales_csv], ClickAnalyze,
                    Settle (Resolved \<lparr>status = 200, data = JObj []\<rparr>)] init_session))
   \<and> fire no_env ClickClear (run no_env [Drop [sales_csv], ClickAnalyze,
                    Settle (Resolved \<lparr>status = 200, data = JObj []\<rparr>)] init_session)
      = run no_env [Drop [sales_csv], ClickAnalyze,
                    Settle (Resolved \<lparr>status = 200, data = JObj []\<rparr>)] init_session"
  using clear_drops_file [of "run no_env [Drop [sales_csv]] init_session" no_env]
    clear_drops_file [of "run no_env [Drop [sales_csv], ClickAnalyze,
                    Settle (Resolved \<lparr>status = 200, data = JObj []\<rparr>)] init_session" no_env]
  by (simp add: init_session_def init_state_def upload_view_def onDrop_def analyze_enabled_def
      buttons_shown_def analyzeDataset_begin_def analyzeDataset_end_def)

text \<open>
  C6. Selecting a file the drop zone accepts stores that very file (so its name and size
  are those of the input), replacing the one held before, and clears the result and the
  error; the loading flag is untouched.
\<close>

theorem select_valid_file:
  "accepted f \<Longrightarrow>
     select accepted f s = s\<lparr>file_s := Some f, error := JNull, analysis := JNull\<rparr>
     \<and> map_option name (file_s (select accepted f s)) = Some (name f)
     \<and> map_option size_f (file_s (select accepted f s)) = Some (size_f f)
     \<and> file_s (select accepted f s) = Some f
     \<and> analysis (select accepted f s) = JNull
     \<and> error (select accepted f s) = JNull
     \<and> loading (select accepted f s) = loading s"
  by (simp add: select_def acceptedFiles_of_def onDrop_def)

theorem select_valid_file_witness:
  "accepts_type sales_csv
   \<and> select accepts_type sales_csv
       \<lparr>file_s = Some report_pdf, analysis = JNull, loading = False, error = JStr ''Error al analizar el dataset''\<rparr>
     = \<lparr>file_s = Some sales_csv, analysis = JNull, loading = False, error = JNull\<rparr>"
proof -
  have a: "accepts_type sales_csv"
    by (simp add: accepts_type_def accept_def sales_csv_def)
  show ?thesis
    using a select_valid_file [of accepts_type sales_csv
        "\<lparr>file_s = Some report_pdf, analysis = JNull, loading = False, error = JStr ''Error al analizar el dataset''\<rparr>"]
    by simp
qed

text \<open>
  C10. A response stores its body as the result and keeps the file: a submission started
  from a reachable session and settled by a response leaves the state it started from
  with the result set. While the result is displayed, every event other than a click on
  the reset button leaves the session as it is; reset drops the file, and so does the
  clear handler where it runs.
\<close>

theorem success_keeps_file:
  assumes "y = run e evs init_session"
  shows "file_s (analyzeDataset_end (Resolved r) s) = file_s s
         \<and> analysis (analyzeDataset_end (Resolved r) s) = data r
         \<and> (analyze_enabled (ui y) \<longrightarrow>
              ui (fire e (Settle (Resolved r)) (fire e ClickAnalyze y))
                = (ui y)\<lparr>error := JNull, analysis := data r\<rparr>)
         \<and> (\<not> upload_view (ui y) \<and> ev \<noteq> ClickReset \<longrightarrow> fire e ev y = y)
         \<and> (\<not> upload_view (ui y) \<longrightarrow> file_s (ui (fire e ClickReset y)) = None)
         \<and> file_s (clearFile s) = None"
proof -
  have 1: "file_s (analyzeDataset_end (Resolved r) s) = file_s s
           \<and> analysis (analyzeDataset_end (Resolved r) s) = data r"
    by (simp add: analyzeDataset_end_def)
  have 2: "ui (fire e (Settle (Resolved r)) (fire e ClickAnalyze y))
             = (ui y)\<lparr>error := JNull, analysis := data r\<rparr>" if en: "analyze_enabled (ui y)"
  proof -
    from en assms have "inflight y = []"
      using reachable_idle_inflight [of e evs] by (simp add: analyze_enabled_def)
    with en show ?thesis
      by (auto simp: analyze_enabled_def buttons_shown_def analyzeDataset_begin_def
          analyzeDataset_end_def)
  qed
  have 3: "fire e ev y = y" if res: "\<not> upload_view (ui y)" and ne: "ev \<noteq> ClickReset"
  proof -
    from res assms have "inflight y = []"
      using reachable_result_not_loading [of e evs] reachable_idle_inflight [of e evs]
      by (simp add: upload_view_def)
    with res ne show ?thesis
      by (cases ev) (simp_all add: analyze_enabled_def buttons_shown_def)
  qed
  have 4: "file_s (ui (fire e ClickReset y)) = None" if "\<not> upload_view (ui y)"
    using that by (simp add: resetAnalysis_def)
  have 5: "file_s (clearFile s) = None"
    by (simp add: clearFile_def)
  from 1 2 3 4 5 show ?thesis by blast
qed

theorem success_keeps_file_witness:
  "analyze_enabled (ui (run no_env [Drop [sales_csv]] init_session))
   \<and> file_s (ui (run no_env [Drop [sales_csv], ClickAnalyze,
        Settle (Resolved \<lparr>status = 200, data = JObj [(''observaciones'', JArr [])]\<rparr>)] init_session))
      = Some sales_csv
   \<and> \<not> upload_view (ui (run no_env [Drop [sales_csv], ClickAnalyze,
        Settle (Resolved \<lparr>status = 200, data = JObj [(''observaciones'', JArr [])]\<rparr>)] init_session))
   \<and> fire no_env ClickClear (run no_env [Drop [sales_csv], ClickAnalyze,
        Settle (Resolved \<lparr>status = 200, data = JObj [(''observaciones'', JArr [])]\<rparr>)] init_session)
      = run no_env [Drop [sales_csv], ClickAnalyze,
        Settle (Resolved \<lparr>status = 200, data = JObj [(''observaciones'', JArr [])]\<rparr>)] init_session
   \<and> file_s (ui (run no_env [Drop [sales_csv], ClickAnalyze,
        Settle (Resolved \<lparr>status = 200, data = JObj [(''observaciones'', JArr [])]\<rparr>), ClickReset] init_session))
      = None"
  using success_keeps_file [OF refl, where e = no_env and evs = "[Drop [sales_csv]]"
        and r = "\<lparr>status = 200, data = JObj [(''observaciones'', JArr [])]\<rparr>"
        and s = init_state and ev = ClickClear]
    success_keeps_file [OF refl, where e = no_env and evs = "[Drop [sales_csv], ClickAnalyze,
        Settle (Resolved \<lparr>status = 200, data = JObj [(''observaciones'', JArr [])]\<rparr>)]"
        and r = "\<lparr>status = 200, data = JObj [(''observaciones'', JArr [])]\<rparr>"
        and s = init_state and ev = ClickClear]
  by (simp add: init_session_def init_state_def upload_view_def onDrop_def analyze_enabled_def
      buttons_shown_def analyzeDataset_begin_def analyzeDataset_end_def resetAnalysis_def)

text \<open>
  C9, as stated: the timeout is 30000 whenever the environment value is absent or is not
  a parseable positive integer. It is not: for the value \<^verbatim>\<open>-5\<close>, which is no positive
  integer, \<^verbatim>\<open>parseInt\<close> gives \<open>-5\<close>, which is truthy, and the request is made with a
  timeout of \<open>-5\<close>.
\<close>

theorem negative_timeout_counterexample:
  "parseInt ''-5'' = Some (- 5)
   \<and> api_timeout \<lparr>VITE_API_BASE_URL = None, VITE_API_TIMEOUT = Some ''-5''\<rparr> = - 5
   \<and> api_timeout \<lparr>VITE_API_BASE_URL = None, VITE_API_TIMEOUT = Some ''-5''\<rparr> \<noteq> 30000"
  by (simp add: api_timeout_def to_string_def parseInt_def is_space_def strip_prefix_parse_def
      parse_digits_def digit_val_def)

text \<open>
  C9, amended. The base URL is \<^verbatim>\<open>http://localhost:8000\<close> when the environment value is
  absent. The timeout is 30000 when the environment value is absent or \<^verbatim>\<open>parseInt\<close> of it
  is \<^verbatim>\<open>NaN\<close> or \<open>0\<close>; any other integer \<^verbatim>\<open>parseInt\<close> reads from it, a negative one
  included, is the timeout. Every accepted click on the analyze button makes exactly one
  request: a POST to the base URL followed by \<^verbatim>\<open>/analyze_dataset/\<close>, with the held file as
  the only form field and that timeout.
\<close>

theorem configured_submission:
  "(VITE_API_BASE_URL e = None \<longrightarrow> API_BASE_URL e = ''http://localhost:8000'')
   \<and> (VITE_API_TIMEOUT e = None \<longrightarrow> api_timeout e = 30000)
   \<and> (parseInt (to_string (VITE_API_TIMEOUT e)) = None \<longrightarrow> api_timeout e = 30000)
   \<and> (parseInt (to_string (VITE_API_TIMEOUT e)) = Some 0 \<longrightarrow> api_timeout e = 30000)
   \<and> (parseInt (to_string (VITE_API_TIMEOUT e)) = Some n \<and> n \<noteq> 0 \<longrightarrow> api_timeout e = n)
   \<and> (analyze_enabled (ui y) \<and> file_s (ui y) = Some f \<longrightarrow>
        sent (fire e ClickAnalyze y) = sent y @
          [\<lparr>method_r = ''POST'', url = API_BASE_URL e @ ''/analyze_dataset/'',
            form = [(''file'', f)], headers = [(''Content-Type'', ''multipart/form-data'')],
            timeout = api_timeout e\<rparr>])"
proof -
  have undef: "parseInt ''undefined'' = None"
    by (simp add: parseInt_def is_space_def strip_prefix_parse_def parse_digits_def digit_val_def)
  have 1: "VITE_API_BASE_URL e = None \<longrightarrow> API_BASE_URL e = ''http://localhost:8000''"
    by (simp add: API_BASE_URL_def)
  have 2: "VITE_API_TIMEOUT e = None \<longrightarrow> api_timeout e = 30000"
    using undef by (simp add: api_timeout_def to_string_def)
  have 3: "parseInt (to_string (VITE_API_TIMEOUT e)) = None \<longrightarrow> api_timeout e = 30000"
    by (simp add: api_timeout_def)
  have 4: "parseInt (to_string (VITE_API_TIMEOUT e)) = Some 0 \<longrightarrow> api_timeout e = 30000"
    by (simp add: api_timeout_def)
  have 5: "parseInt (to_string (VITE_API_TIMEOUT e)) = Some n \<and> n \<noteq> 0 \<longrightarrow> api_timeout e = n"
    by (simp add: api_timeout_def)
  have 6: "analyze_enabled (ui y) \<and> file_s (ui y) = Some f \<longrightarrow>
        sent (fire e ClickAnalyze y) = sent y @
          [\<lparr>method_r = ''POST'', url = API_BASE_URL e @ ''/analyze_dataset/'',
            form = [(''file'', f)], headers = [(''Content-Type'', ''multipart/form-data'')],
            timeout = api_timeout e\<rparr>]"
    by (simp add: analyzeDataset_begin_def mk_request_def)
  from 1 2 3 4 5 6 show ?thesis by blast
qed

theorem configured_submission_witness:
  "VITE_API_BASE_URL no_env = None \<and> VITE_API_TIMEOUT no_env = None
   \<and> parseInt (to_string (VITE_API_TIMEOUT no_env)) = None
   \<and> analyze_enabled (ui (run no_env [Drop [sales_csv]] init_session))
   \<and> sent (fire no_env ClickAnalyze (run no_env [Drop [sales_csv]] init_session))
       = [\<lparr>method_r = ''POST'', url = ''http://localhost:8000/analyze_dataset/'',
           form = [(''file'', sales_csv)], headers = [(''Content-Type'', ''multipart/form-data'')],
           timeout = 30000\<rparr>]
   \<and> parseInt (to_string (VITE_API_TIMEOUT \<lparr>VITE_API_BASE_URL = None, VITE_API_TIMEOUT = Some ''0''\<rparr>)) = Some 0
   \<and> api_timeout \<lparr>VITE_API_BASE_URL = None, VITE_API_TIMEOUT = Some ''0''\<rparr> = 30000
   \<and> parseInt (to_string (VITE_API_TIMEOUT \<lparr>VITE_API_BASE_URL = None, VITE_API_TIMEOUT = Some ''60000''\<rparr>)) = Some 60000
   \<and> api_timeout \<lparr>VITE_API_BASE_URL = None, VITE_API_TIMEOUT = Some ''60000''\<rparr> = 60000"
proof -
  have p1: "parseInt (to_string (VITE_API_TIMEOUT no_env)) = None"
    by (simp add: no_env_def to_string_def parseInt_def is_space_def strip_prefix_parse_def
        parse_digits_def digit_val_def)
  have p2: "parseInt (to_string (VITE_API_TIMEOUT \<lparr>VITE_API_BASE_URL = None, VITE_API_TIMEOUT = Some ''0''\<rparr>)) = Some 0"
    by (simp add: to_string_def parseInt_def is_space_def strip_prefix_parse_def
        parse_digits_def digit_val_def)
  have p3: "parseInt (to_string (VITE_API_TIMEOUT \<lparr>VITE_API_BASE_URL = None, VITE_API_TIMEOUT = Some ''60000''\<rparr>)) = Some 60000"
    by (simp add: to_string_def parseInt_def is_space_def strip_prefix_parse_def
        parse_digits_def digit_val_def)
  have en: "analyze_enabled (ui (run no_env [Drop [sales_csv]] init_session))
            \<and> file_s (ui (run no_env [Drop [sales_csv]] init_session)) = Some sales_csv
            \<and> sent (run no_env [Drop [sales_csv]] init_session) = []"
    by (simp add: init_session_def init_state_def upload_view_def onDrop_def analyze_enabled_def
        buttons_shown_def)
  have env0: "VITE_API_BASE_URL no_env = None \<and> VITE_API_TIMEOUT no_env = None"
    by (simp add: no_env_def)
  show ?thesis
    using p1 p2 p3 en env0
      configured_submission [where e = no_env and n = 1
        and y = "run no_env [Drop [sales_csv]] init_session" and f = sales_csv]
      configured_submission [where e = "\<lparr>VITE_API_BASE_URL = None, VITE_API_TIMEOUT = Some ''0''\<rparr>"
        and n = 1 and y = init_session and f = sales_csv]
      configured_submission [where e = "\<lparr>VITE_API_BASE_URL = None, VITE_API_TIMEOUT = Some ''60000''\<rparr>"
        and n = 60000 and y = init_session and f = sales_csv]
    by simp
qed

text \<open>
  C4, as stated: after every failed submission the file is still held and the upload
  section with the error attached is rendered, so that the user can retry. It is not
  rendered after every failure: a 422 whose \<^verbatim>\<open>detail\<close> is an array of objects is stored as
  the error, the file is still in the state, but the render of \<^verbatim>\<open>{error}\<close> throws and
  nothing is left to retry with.
\<close>

theorem object_detail_breaks_render_counterexample:
  "interactive (render num_gtz (ui (run no_env [Drop [sales_csv], ClickAnalyze] init_session)))
   \<and> file_s (ui (run no_env
        [Drop [sales_csv], ClickAnalyze, Settle (Rejected (BadStatus validation_422))]
        init_session)) = Some sales_csv
   \<and> render num_gtz (ui (run no_env
        [Drop [sales_csv], ClickAnalyze, Settle (Rejected (BadStatus validation_422))]
        init_session)) = None"
  by (simp add: init_session_def init_state_def upload_view_def onDrop_def analyze_enabled_def
      buttons_shown_def analyzeDataset_begin_def analyzeDataset_end_def catch_message_def
      or_else_def validation_422_def render_def render_upload_def interactive_def)

text \<open>
  C4, amended. In a reachable session with a request pending, a settling by any failure
  changes only the error and the loading flag: the file held is the one held before.
  When the message is a valid child (it always is for a timeout and for a transport
  failure) the upload section is rendered with the message in the error box and, if a
  file is held, with the clear button and an enabled analyze button, and a click on it
  submits that same file again. In particular a submission made by a click on the
  enabled analyze button and settled by a failure leaves the state it started from with
  the message attached.
\<close>

theorem failed_submission_keeps_file:
  assumes "y = run e evs init_session"
  shows
    "(inflight y \<noteq> [] \<longrightarrow>
        ui (fire e (Settle (Rejected err)) y)
          = (ui y)\<lparr>error := catch_message err, loading := False\<rparr>
        \<and> file_s (ui (fire e (Settle (Rejected err)) y)) = file_s (ui y))
     \<and> (inflight y \<noteq> [] \<and> valid_child (catch_message err) \<longrightarrow>
        render gtz (ui (fire e (Settle (Rejected err)) y))
          = Some \<lparr>dropzone_v = True,
                  analyze_v = (case file_s (ui y) of None \<Rightarrow> None | Some f \<Rightarrow> Some False),
                  clear_v = (file_s (ui y) \<noteq> None),
                  error_v = Some (catch_message err),
                  reset_v = False, observation_cards = 0, suggestion_cards = 0\<rparr>)
     \<and> (inflight y \<noteq> [] \<and> valid_child (catch_message err) \<and> file_s (ui y) = Some c \<longrightarrow>
        sent (fire e ClickAnalyze (fire e (Settle (Rejected err)) y))
          = sent y @ [mk_request e c])
     \<and> (map_option analyze_v (render gtz (ui y)) = Some (Some False)
          \<and> file_s (ui y) = Some c \<longrightarrow>
        ui (fire e (Settle (Rejected err)) (fire e ClickAnalyze y))
          = (ui y)\<lparr>error := catch_message err\<rparr>
        \<and> file_s (ui (fire e (Settle (Rejected err)) (fire e ClickAnalyze y))) = Some c)
     \<and> valid_child (catch_message Timeout)
     \<and> valid_child (catch_message NetworkFail)"
proof -
  let ?m = "catch_message err"
  let ?y' = "fire e (Settle (Rejected err)) y"
  have msg: "truthy ?m" by (rule catch_message_truthy)
  have pend: "loading (ui y) \<and> error (ui y) = JNull \<and> \<not> truthy (analysis (ui y))
              \<and> (\<exists>r. inflight y = [r])" if "inflight y \<noteq> []"
    using that reachable_pending [of e evs] assms by simp
  have 1: "ui ?y' = (ui y)\<lparr>error := ?m, loading := False\<rparr> \<and> file_s (ui ?y') = file_s (ui y)"
    if p: "inflight y \<noteq> []"
    using pend [OF p] by (auto simp: analyzeDataset_end_def)
  have 2: "render gtz (ui ?y')
          = Some \<lparr>dropzone_v = True,
                  analyze_v = (case file_s (ui y) of None \<Rightarrow> None | Some f \<Rightarrow> Some False),
                  clear_v = (file_s (ui y) \<noteq> None),
                  error_v = Some ?m,
                  reset_v = False, observation_cards = 0, suggestion_cards = 0\<rparr>"
    if p: "inflight y \<noteq> []" and v: "valid_child ?m"
    using 1 [OF p] pend [OF p] v msg
    by (simp add: render_def render_upload_def split: option.splits)
  have 3: "sent (fire e ClickAnalyze ?y') = sent y @ [mk_request e c]"
    if p: "inflight y \<noteq> []" and f: "file_s (ui y) = Some c"
    using pend [OF p] f
    by (auto simp: analyzeDataset_end_def analyze_enabled_def buttons_shown_def upload_view_def
        analyzeDataset_begin_def)
  have 4: "ui (fire e (Settle (Rejected err)) (fire e ClickAnalyze y)) = (ui y)\<lparr>error := ?m\<rparr>
           \<and> file_s (ui (fire e (Settle (Rejected err)) (fire e ClickAnalyze y))) = Some c"
    if b: "map_option analyze_v (render gtz (ui y)) = Some (Some False)"
      and f: "file_s (ui y) = Some c"
  proof -
    from b obtain v where v: "render gtz (ui y) = Some v" and a: "analyze_v v = Some False"
      by auto
    from render_controls [OF v] a have en: "buttons_shown (ui y) \<and> \<not> loading (ui y)"
      by (auto split: if_splits)
    then have idle: "inflight y = []"
      using reachable_idle_inflight [of e evs] assms by simp
    from en idle f show ?thesis
      by (simp add: analyze_enabled_def analyzeDataset_begin_def analyzeDataset_end_def)
  qed
  have 5: "valid_child (catch_message Timeout) \<and> valid_child (catch_message NetworkFail)"
    by (simp add: catch_message_def or_else_def)
  from 1 2 3 4 5 show ?thesis by blast
qed

theorem failed_submission_keeps_file_witness:
  "inflight (run no_env [Drop [sales_csv], ClickAnalyze] init_session) \<noteq> []
   \<and> valid_child (catch_message (BadStatus error_500))
   \<and> file_s (ui (run no_env [Drop [sales_csv], ClickAnalyze] init_session)) = Some sales_csv
   \<and> ui (fire no_env (Settle (Rejected (BadStatus error_500)))
         (run no_env [Drop [sales_csv], ClickAnalyze] init_session))
      = \<lparr>file_s = Some sales_csv, analysis = JNull, loading = False,
         error = JStr ''internal error''\<rparr>
   \<and> render num_gtz (ui (fire no_env (Settle (Rejected (BadStatus error_500)))
         (run no_env [Drop [sales_csv], ClickAnalyze] init_session)))
      = Some \<lparr>dropzone_v = True, analyze_v = Some False, clear_v = True,
              error_v = Some (JStr ''internal error''), reset_v = False,
              observation_cards = 0, suggestion_cards = 0\<rparr>
   \<and> sent (fire no_env ClickAnalyze (fire no_env (Settle (Rejected (BadStatus error_500)))
         (run no_env [Drop [sales_csv], ClickAnalyze] init_session)))
      = [mk_request no_env sales_csv, mk_request no_env sales_csv]
   \<and> map_option analyze_v (render num_gtz (ui (run no_env [Drop [sales_csv]] init_session)))
      = Some (Some False)
   \<and> ui (fire no_env (Settle (Rejected (BadStatus error_500)))
         (fire no_env ClickAnalyze (run no_env [Drop [sales_csv]] init_session)))
      = \<lparr>file_s = Some sales_csv, analysis = JNull, loading = False,
         error = JStr ''internal error''\<rparr>"
proof -
  define y where "y = run no_env [Drop [sales_csv], ClickAnalyze] init_session"
  define y0 where "y0 = run no_env [Drop [sales_csv]] init_session"
  let ?err = "BadStatus error_500"
  let ?y' = "fire no_env (Settle (Rejected ?err)) y"
  have m: "catch_message ?err = JStr ''internal error''"
    by (simp add: catch_message_def or_else_def error_500_def)
  have u: "ui y = \<lparr>file_s = Some sales_csv, analysis = JNull, loading = True, error = JNull\<rparr>"
    and i: "inflight y \<noteq> []"
    and s: "sent y = [mk_request no_env sales_csv]"
    unfolding y_def
    by (simp_all add: init_session_def init_state_def upload_view_def onDrop_def
        analyze_enabled_def buttons_shown_def analyzeDataset_begin_def)
  have u0: "ui y0 = \<lparr>file_s = Some sales_csv, analysis = JNull, loading = False, error = JNull\<rparr>"
    unfolding y0_def
    by (simp add: init_session_def init_state_def upload_view_def onDrop_def)
  have v: "valid_child (catch_message ?err)"
    by (simp add: m)
  have f: "file_s (ui y) = Some sales_csv"
    by (simp add: u)
  have b: "map_option analyze_v (render num_gtz (ui y0)) = Some (Some False)"
    by (simp add: u0 render_def render_upload_def)
  have f0: "file_s (ui y0) = Some sales_csv"
    by (simp add: u0)
  note pending = failed_submission_keeps_file [OF y_def, where err = ?err and gtz = num_gtz
      and c = sales_csv]
  note fresh = failed_submission_keeps_file [OF y0_def, where err = ?err and gtz = num_gtz
      and c = sales_csv]
  from pending i have "ui ?y' = (ui y)\<lparr>error := catch_message ?err, loading := False\<rparr>"
    by blast
  then have c1: "ui ?y' = \<lparr>file_s = Some sales_csv, analysis = JNull, loading = False,
      error = JStr ''internal error''\<rparr>"
    by (simp only: u m app_state.simps)
  from pending i v have "render num_gtz (ui ?y')
      = Some \<lparr>dropzone_v = True,
              analyze_v = (case file_s (ui y) of None \<Rightarrow> None | Some f \<Rightarrow> Some False),
              clear_v = (file_s (ui y) \<noteq> None),
              error_v = Some (catch_message ?err),
              reset_v = False, observation_cards = 0, suggestion_cards = 0\<rparr>"
    by blast
  then have c2: "render num_gtz (ui ?y')
      = Some \<lparr>dropzone_v = True, analyze_v = Some False, clear_v = True,
              error_v = Some (JStr ''internal error''), reset_v = False,
              observation_cards = 0, suggestion_cards = 0\<rparr>"
    by (simp only: f m option.simps) simp
  from pending i v f have "sent (fire no_env ClickAnalyze ?y') = sent y @ [mk_request no_env sales_csv]"
    by blast
  then have c3: "sent (fire no_env ClickAnalyze ?y')
      = [mk_request no_env sales_csv, mk_request no_env sales_csv]"
    by (simp only: s append.simps)
  from fresh b f0 have "ui (fire no_env (Settle (Rejected ?err)) (fire no_env ClickAnalyze y0))
      = (ui y0)\<lparr>error := catch_message ?err\<rparr>"
    by blast
  then have c4: "ui (fire no_env (Settle (Rejected ?err)) (fire no_env ClickAnalyze y0))
      = \<lparr>file_s = Some sales_csv, analysis = JNull, loading = False,
         error = JStr ''internal error''\<rparr>"
    by (simp only: u0 m app_state.simps)
  from i v f c1 c2 c3 b c4 show ?thesis
    unfolding y_def y0_def by blast
qed

text \<open>
  C5, as stated: every analyze invocation, ended by a success or by a failure, leaves the
  component in an interactive state, with no error uncaught. It does not: a response
  with the body \<^verbatim>\<open>{}\<close> is stored as the result and \<^verbatim>\<open>loading\<close> is cleared, but the render of
  the results section reads \<^verbatim>\<open>analysis.metricas.porcentaje_valores_faltantes\<close> and throws,
  so nothing is rendered.
\<close>

theorem malformed_body_breaks_render_counterexample:
  "interactive (render num_gtz (ui (run no_env [Drop [sales_csv], ClickAnalyze] init_session)))
   \<and> \<not> loading (ui (run no_env
        [Drop [sales_csv], ClickAnalyze, Settle (Resolved \<lparr>status = 200, data = JObj []\<rparr>)]
        init_session))
   \<and> \<not> interactive (render num_gtz (ui (run no_env
        [Drop [sales_csv], ClickAnalyze, Settle (Resolved \<lparr>status = 200, data = JObj []\<rparr>)]
        init_session)))"
  by (simp add: init_session_def init_state_def upload_view_def onDrop_def analyze_enabled_def
      buttons_shown_def analyzeDataset_begin_def analyzeDataset_end_def render_def
      render_upload_def render_results_def render_metrics_def interactive_def)

text \<open>
  C5, amended. Whatever the awaited promise settles with, a response or any rejection, the
  rest of \<^verbatim>\<open>analyzeDataset\<close> runs to its end and clears \<^verbatim>\<open>loading\<close>: the \<^verbatim>\<open>catch\<close> takes every
  rejection, and after a settling nothing is pending. In a reachable session \<^verbatim>\<open>loading\<close>
  is on exactly while a request is pending. After the settling the component is
  interactive (the drop zone or the reset button is on the page) when what was stored
  renders: after a rejection whose message is a valid child, after a response whose body
  is falsy or has the shape the results section is written for.
\<close>

theorem analyze_never_stuck:
  "\<not> loading (analyzeDataset_end out s)
   \<and> \<not> loading (ui (fire e (Settle out) (run e evs init_session)))
   \<and> inflight (fire e (Settle out) (run e evs init_session)) = []
   \<and> loading (ui (run e evs init_session)) = (inflight (run e evs init_session) \<noteq> [])
   \<and> (inflight (run e evs init_session) \<noteq> [] \<and> renderable_outcome out \<longrightarrow>
        interactive (render gtz (ui (fire e (Settle out) (run e evs init_session)))))"
proof -
  let ?y = "run e evs init_session"
  have inv: "session_inv ?y" by (rule session_inv_reachable)
  have 1: "\<not> loading (analyzeDataset_end out s)"
    by (simp add: analyzeDataset_end_def)
  have 2: "\<not> loading (ui (fire e (Settle out) ?y)) \<and> inflight (fire e (Settle out) ?y) = []"
    using inv by (cases "inflight ?y") (simp_all add: session_inv_def analyzeDataset_end_def)
  from inv have 3: "loading (ui ?y) = (inflight ?y \<noteq> [])"
    by (simp add: session_inv_def)
  have 4: "interactive (render gtz (ui (fire e (Settle out) ?y)))"
    if p: "inflight ?y \<noteq> []" and ok: "renderable_outcome out"
  proof -
    from reachable_pending [OF p] obtain r where
      st: "error (ui ?y) = JNull" "\<not> truthy (analysis (ui ?y))" and q: "inflight ?y = [r]"
      by auto
    show ?thesis
    proof (cases out)
      case (Resolved rsp)
      show ?thesis
      proof (cases "truthy (data rsp)")
        case True
        with ok Resolved have "is_analysis_result (data rsp)"
          by (simp add: renderable_outcome_def)
        then have "interactive (render_results gtz (data rsp))"
          using analysis_result_renders by blast
        with True Resolved q show ?thesis
          by (simp add: analyzeDataset_end_def render_def)
      next
        case False
        with Resolved q st show ?thesis
          by (simp add: analyzeDataset_end_def render_def render_upload_def interactive_def)
      qed
    next
      case (Rejected err)
      with ok have "valid_child (catch_message err)"
        by (simp add: renderable_outcome_def)
      with Rejected q st show ?thesis
        by (simp add: analyzeDataset_end_def render_def render_upload_def interactive_def)
    qed
  qed
  from 1 2 3 4 show ?thesis by blast
qed

theorem analyze_never_stuck_witness:
  "inflight (run no_env [Drop [sales_csv], ClickAnalyze] init_session) \<noteq> []
   \<and> renderable_outcome (Resolved report_200)
   \<and> renderable_outcome (Rejected NetworkFail)
   \<and> interactive (render num_gtz (ui (fire no_env (Settle (Resolved report_200))
         (run no_env [Drop [sales_csv], ClickAnalyze] init_session))))
   \<and> interactive (render num_gtz (ui (fire no_env (Settle (Rejected NetworkFail))
         (run no_env [Drop [sales_csv], ClickAnalyze] init_session))))
   \<and> \<not> loading (ui (fire no_env (Settle (Rejected NetworkFail))
         (run no_env [Drop [sales_csv], ClickAnalyze] init_session)))"
proof -
  have p: "inflight (run no_env [Drop [sales_csv], ClickAnalyze] init_session) \<noteq> []"
    by (simp add: init_session_def init_state_def upload_view_def onDrop_def analyze_enabled_def
        buttons_shown_def analyzeDataset_begin_def)
  have a: "renderable_outcome (Resolved report_200)"
    by (simp add: renderable_outcome_def report_200_def is_analysis_result_def is_metrics_def
        is_findings_def is_finding_def is_num_def is_str_def)
  have b: "renderable_outcome (Rejected NetworkFail)"
    by (simp add: renderable_outcome_def catch_message_def or_else_def)
  show ?thesis
    using p a b
      analyze_never_stuck [where out = "Resolved report_200" and s = init_state and e = no_env
        and evs = "[Drop [sales_csv], ClickAnalyze]" and gtz = num_gtz]
      analyze_never_stuck [where out = "Rejected NetworkFail" and s = init_state and e = no_env
        and evs = "[Drop [sales_csv], ClickAnalyze]" and gtz = num_gtz]
    by blast
qed



end
